theory Spec2Isabelle
  imports Main "HOL-Library.Word" "HOL-Library.Signed_Division"
begin

unbundle bit_operations_syntax

section \<open>The assembler core of subc/asm (asm.go)\<close>

text \<open>
  The Go code builds a graph of heap objects that point at each other: a \<open>*sym\<close> is
  shared by the global map, by the declaration-order list and by the lists of a section;
  a \<open>*relocation\<close> is shared by the program and by its section. The model keeps one store
  per struct type. A pointer is \<open>Some r\<close>, the index \<open>r\<close> of the object in its store, or
  \<open>None\<close> for \<open>nil\<close>; allocating (\<open>&sym{}\<close>, \<open>&inst{...}\<close>) appends to the store and yields
  the old length as the new reference; \<open>p.f = v\<close> updates the store at \<open>p\<close>. A slice of
  pointers that the code only ever appends non-nil pointers to is a list of references.

  Go's \<open>int64\<close> and \<open>int\<close> (64 bits on amd64) are \<open>64 word\<close>, read as signed by \<open>sint\<close>;
  \<open>+\<close> and \<open>-\<close> wrap as in Go, \<open>rem\<close> below is Go's truncating \<open>%\<close>. The untyped tag constants
  (\<open>iota\<close>) and the type \<open>op\<close> are \<open>int\<close>: no arithmetic is done on them. A \<open>[]byte\<close> is a
  list of \<open>8 word\<close>; the \<open>nil\<close> slice and the empty slice are both \<open>[]\<close>, which the code
  never tells apart (it only takes \<open>len\<close> and appends). Memory is not bounded: an
  allocation that Go's runtime accepts succeeds.
\<close>

subsection \<open>Constants\<close>

type_synonym byte = "8 word"
type_synonym int64 = "64 word"
type_synonym goint = "64 word"
type_synonym ref = nat

text \<open>generic op for all architectures\<close>

definition opNOP :: int where "opNOP = 0"
definition opSTRZ :: int where "opSTRZ = 1"
definition opQUAD :: int where "opQUAD = 2"
definition opLONG :: int where "opLONG = 3"
definition opSHORT :: int where "opSHORT = 4"
definition opBYTE :: int where "opBYTE = 5"
definition opBYTES :: int where "opBYTES = 6"

text \<open>addressing mode for all architectures\<close>

definition aNONE :: int where "aNONE = 0"
definition aREG :: int where "aREG = 1"
definition aVAR :: int where "aVAR = 2"
definition aPTR :: int where "aPTR = 3"
definition aMEM :: int where "aMEM = 4"
definition aINT :: int where "aINT = 5"
definition aSTR :: int where "aSTR = 6"
definition aNOTE :: int where "aNOTE = 7"
definition aSECT :: int where "aSECT = 8"

text \<open>the type of a symbol\<close>

definition sNONE :: int where "sNONE = 0"
definition sLABEL :: int where "sLABEL = 1"
definition sBSS :: int where "sBSS = 2"
definition sUND :: int where "sUND = 3"

text \<open>relocation types\<close>

definition lN :: int where "lN = 0"
definition lS :: int where "lS = 1"
definition lPC :: int where "lPC = 2"
definition lV :: int where "lV = 3"

text \<open>section types\<close>

definition stNONE :: int where "stNONE = 0"
definition stNOTE :: int where "stNOTE = 1"
definition stPROGBITS :: int where "stPROGBITS = 2"
definition stNOBITS :: int where "stNOBITS = 3"
definition stSYMTAB :: int where "stSYMTAB = 4"
definition stSTRTAB :: int where "stSTRTAB = 5"

subsection \<open>The structs\<close>

text \<open>\<open>binary.ByteOrder\<close>: the two orders of encoding/binary.\<close>

datatype byteorder = LittleEndian | BigEndian

text \<open>\<open>addr\<close> represents an argument for the instruction.\<close>

record addr =
  a_typ :: int
  a_reg :: byte
  a_ival :: int64
  a_sval :: string
  a_deref :: bool

text \<open>The array type \<open>[4]addr\<close>.\<close>

type_synonym addr4 = "addr \<times> addr \<times> addr \<times> addr"

text \<open>\<open>inst\<close> represents an instruction.\<close>

record inst =
  i_op :: int
  i_addr :: addr4
  i_code :: "byte list"

text \<open>\<open>relocation\<close> embeds a \<open>*section\<close> and an \<open>*inst\<close>.\<close>

record relocation =
  r_section :: "ref option"
  r_inst :: "ref option"
  r_off :: int64
  r_pc :: goint
  r_isize :: goint
  r_reltyp :: int
  r_relname :: string
  r_rel :: int64

record span =
  sp_off :: int64
  sp_size :: int64
  sp_pc :: goint

text \<open>\<open>section\<close> represents one section (\<open>sectn\<close>: \<open>section\<close> is a keyword of Isabelle).\<close>

record sectn =
  sec_name :: string
  sec_flags :: string
  sec_typ :: int
  sec_inst :: "ref list"
  sec_syms :: "ref list"
  sec_vars :: "ref list"
  sec_labels :: "ref list"
  sec_blocks :: "ref list"
  sec_strings :: "span list"
  sec_relocs :: "ref list"
  sec_size :: int64
  sec_blockalign :: int64
  sec_blocksize :: int64
  sec_pc :: goint

text \<open>\<open>sym\<close> represents a symbol.\<close>

record sym =
  sym_sect :: "ref option"
  sym_typ :: int
  sym_name :: string
  sym_size :: int64
  sym_off :: int64
  sym_pc :: goint
  sym_allocated :: bool
  sym_exported :: bool

text \<open>
  \<open>as\<close> embeds \<open>*prog\<close>: one record holds the four stores, the fields of \<open>prog\<close> and the
  fields of \<open>as\<close>.
\<close>

record as =
  sym_store :: "sym list"
  sect_store :: "sectn list"
  inst_store :: "inst list"
  reloc_store :: "relocation list"
  arch :: string
  os :: string
  endian :: byteorder
  text' :: "ref option"
  data :: "ref option"
  bss :: "ref option"
  sects :: "ref list"
  syms :: "string \<rightharpoonup> ref"
  osyms :: "ref list"
  usyms :: "ref list"
  relocs :: "ref list"
  sect :: "ref option"
  as_file :: string
  as_line :: string
  as_lineno :: goint

subsection \<open>Panics\<close>

text \<open>
  Each call of \<open>as.errorf\<close> is one constructor of \<open>message\<close>, with the arguments of its
  format string. \<open>errorf\<close> panics with an error that carries the position (\<open>file\<close>,
  \<open>lineno\<close>) and the source line: this is \<open>Errorf\<close>. \<open>Opaque\<close> is an error that the
  encoder or the writer makes with \<open>errf\<close> on its own, \<open>SinkError\<close> the error of a write
  that the sink refuses, \<open>ErrShortWrite\<close> the error \<open>io.ErrShortWrite\<close>. The other panics
  are Go's run-time errors, which \<open>Assemble\<close> does not turn into a returned error.
\<close>

datatype message =
  UnknownEmitType string
  | AlreadyDeclared string
  | PredefinedSection string
  | NoSectionName
  | UnknownSectionType string

datatype error =
  Errorf string int64 string message
  | UnsupportedArch string
  | UnsupportedOS string
  | Opaque string
  | SinkError
  | ErrShortWrite

datatype panic =
  Error error
  | NilDereference
  | DivideByZero
  | MakesliceLen

text \<open>
  A method of \<open>as\<close> either returns a value and the state it leaves, or panics; the state
  at the panic is kept, so that what a failing call has changed can be stated.
\<close>

datatype 'a result = Return 'a as | Panic panic as

definition errorf :: "as \<Rightarrow> message \<Rightarrow> panic" where
  "errorf st m = Error (Errorf (as_file st) (as_lineno st) (as_line st) m)"

subsection \<open>Constructors\<close>

definition addr0 :: addr where
  "addr0 = \<lparr>a_typ = 0, a_reg = 0, a_ival = 0, a_sval = [], a_deref = False\<rparr>"

definition addr4_0 :: addr4 where
  "addr4_0 = (addr0, addr0, addr0, addr0)"

definition newsection :: "string \<Rightarrow> string \<Rightarrow> int \<Rightarrow> sectn" where
  "newsection name flags typ =
     \<lparr>sec_name = name, sec_flags = flags, sec_typ = typ, sec_inst = [], sec_syms = [],
      sec_vars = [], sec_labels = [], sec_blocks = [], sec_strings = [], sec_relocs = [],
      sec_size = 0, sec_blockalign = 0, sec_blocksize = 0, sec_pc = 0\<rparr>"

text \<open>
  \<open>newprog\<close> creates an empty prog: the three predefined sections are allocated in the
  order Go evaluates the composite literal (\<open>text\<close>, \<open>data\<close>, \<open>bss\<close>). The fields of \<open>as\<close>
  around it have Go's zero values.
\<close>

definition newprog :: "string \<Rightarrow> string \<Rightarrow> as" where
  "newprog arch' os' =
     \<lparr>sym_store = [],
      sect_store = [newsection ''.text'' ''ax'' stPROGBITS,
                    newsection ''.data'' ''wa'' stPROGBITS,
                    newsection ''.bss'' ''wa'' stNOBITS],
      inst_store = [], reloc_store = [],
      arch = arch', os = os', endian = LittleEndian,
      text' = Some 0, data = Some 1, bss = Some 2,
      sects = [], syms = Map.empty, osyms = [], usyms = [], relocs = [],
      sect = None, as_file = [], as_line = [], as_lineno = 0\<rparr>"

subsection \<open>code and emit\<close>

text \<open>
  The dynamic type of one variadic argument of \<open>code\<close>: the cases of its type switch, and
  \<open>VOther T\<close> for a value of any other type \<open>T\<close>.
\<close>

datatype emitval =
  VNil
  | VByte byte
  | VInt goint
  | VUint16 "16 word"
  | VUint32 "32 word"
  | VUint64 "64 word"
  | VOther string

text \<open>\<open>binary.Write\<close> of an unsigned integer of \<open>n\<close> bytes in the given order.\<close>

definition le_bytes :: "nat \<Rightarrow> 'a::len word \<Rightarrow> byte list" where
  "le_bytes n w = map (\<lambda>i. ucast (drop_bit (8 * i) w)) [0..<n]"

definition put_uint :: "byteorder \<Rightarrow> nat \<Rightarrow> 'a::len word \<Rightarrow> byte list" where
  "put_uint e n w = (case e of LittleEndian \<Rightarrow> le_bytes n w | BigEndian \<Rightarrow> rev (le_bytes n w))"

text \<open>
  The loop of \<open>code\<close>, with the slice \<open>code\<close> built so far as accumulator. \<open>errorf\<close> panics,
  so the loop stops at the first value of an unknown type.
\<close>

fun code_loop :: "as \<Rightarrow> emitval list \<Rightarrow> byte list \<Rightarrow> panic + byte list" where
  "code_loop st [] code = Inr code"
| "code_loop st (v # vs) code =
     (case v of
        VNil \<Rightarrow> code_loop st vs code
      | VByte b \<Rightarrow> code_loop st vs (code @ [b])
      | VInt i \<Rightarrow> code_loop st vs (code @ [ucast i])
      | VUint16 w \<Rightarrow> code_loop st vs (code @ put_uint (endian st) 2 w)
      | VUint32 w \<Rightarrow> code_loop st vs (code @ put_uint (endian st) 4 w)
      | VUint64 w \<Rightarrow> code_loop st vs (code @ put_uint (endian st) 8 w)
      | VOther T \<Rightarrow> Inl (errorf st (UnknownEmitType T)))"

definition code :: "as \<Rightarrow> emitval list \<Rightarrow> panic + byte list" where
  "code st v = code_loop st v []"

text \<open>\<open>len\<close> of a slice as an \<open>int64\<close>.\<close>

definition len64 :: "'a list \<Rightarrow> int64" where
  "len64 xs = word_of_nat (length xs)"

text \<open>\<open>s.inst = append(s.inst, &inst{...}); s.size += n\<close> on the section at \<open>r\<close>.\<close>

definition append_inst :: "ref \<Rightarrow> inst \<Rightarrow> int64 \<Rightarrow> as \<Rightarrow> as" where
  "append_inst r i n st =
     (let s = sect_store st ! r;
          p = length (inst_store st)
      in st\<lparr>inst_store := inst_store st @ [i],
            sect_store := (sect_store st)[r := s\<lparr>sec_inst := sec_inst s @ [p],
                                                 sec_size := sec_size s + n\<rparr>]\<rparr>)"

text \<open>\<open>emit\<close> emits code for an instruction.\<close>

definition emit :: "int \<Rightarrow> addr4 \<Rightarrow> emitval list \<Rightarrow> as \<Rightarrow> unit result" where
  "emit op' addr' v st =
     (case code st v of
        Inl e \<Rightarrow> Panic e st
      | Inr c \<Rightarrow>
          (case sect st of
             None \<Rightarrow> Panic NilDereference st
           | Some r \<Rightarrow>
               Return () (append_inst r \<lparr>i_op = op', i_addr = addr', i_code = c\<rparr> (len64 c) st)))"

subsection \<open>bytes and alignpc\<close>

text \<open>\<open>bytes\<close> emits a byte buffer to the instruction stream of the section at \<open>r\<close>.\<close>

definition bytes :: "ref \<Rightarrow> byte list \<Rightarrow> as \<Rightarrow> as" where
  "bytes r buf st =
     append_inst r \<lparr>i_op = opBYTES, i_addr = addr4_0, i_code = buf\<rparr> (len64 buf) st"

text \<open>
  Go's \<open>%\<close> on \<open>int\<close>, for a divisor that is not zero: the remainder has the sign of the
  dividend (\<open>smod\<close> on \<open>int\<close>).
\<close>

definition rem :: "goint \<Rightarrow> goint \<Rightarrow> goint" where
  "rem a b = word_of_int (sint a smod sint b)"

text \<open>
  The allocation limit of Go's runtime on amd64 (\<open>maxAlloc\<close>, 2^48 bytes):
  \<open>make([]byte, n)\<close> panics with "makeslice: len out of range" when \<open>n\<close> is negative or
  above it. Up to the limit the allocation is taken to succeed (a machine that has not
  that much memory ends the process there, which is no panic and is not modelled).
\<close>

definition maxAlloc :: int where
  "maxAlloc = 2 ^ 48"

text \<open>
  \<open>alignpc\<close> aligns current pc to value. \<open>%\<close> panics on a zero divisor and \<open>make\<close> on a
  length that is negative or above the allocation limit.
\<close>

definition alignpc :: "goint \<Rightarrow> byte \<Rightarrow> as \<Rightarrow> unit result" where
  "alignpc align value st =
     (case sect st of
        None \<Rightarrow> Panic NilDereference st
      | Some r \<Rightarrow>
          if align = 0 then Panic DivideByZero st
          else
            (let size = rem (align - rem (sec_pc (sect_store st ! r)) align) align
             in if size <s 0 \<or> maxAlloc < sint size then Panic MakesliceLen st
                else Return () (bytes r (replicate (unat size) value) st)))"

subsection \<open>Symbols\<close>

text \<open>\<open>p.f = v\<close> through a \<open>*sym\<close>, and \<open>s.f = v\<close> through a \<open>*section\<close>.\<close>

definition upd_sym :: "ref \<Rightarrow> (sym \<Rightarrow> sym) \<Rightarrow> as \<Rightarrow> as" where
  "upd_sym p f st = st\<lparr>sym_store := (sym_store st)[p := f (sym_store st ! p)]\<rparr>"

definition upd_sect :: "ref \<Rightarrow> (sectn \<Rightarrow> sectn) \<Rightarrow> as \<Rightarrow> as" where
  "upd_sect r f st = st\<lparr>sect_store := (sect_store st)[r := f (sect_store st ! r)]\<rparr>"

text \<open>
  \<open>gsym\<close> adds a variable to the global symbol table and adds it to the section it
  corresponds to. If the variable does exist, it will just return that.
\<close>

definition gsym :: "string \<Rightarrow> ref option \<Rightarrow> as \<Rightarrow> ref result" where
  "gsym name s st =
     (case syms st name of
        Some p \<Rightarrow> Return p st
      | None \<Rightarrow>
          (case s of
             None \<Rightarrow> Panic NilDereference st
           | Some r \<Rightarrow>
               (let p = length (sym_store st);
                    st1 = st\<lparr>sym_store := sym_store st @
                              [\<lparr>sym_sect = None, sym_typ = 0, sym_name = [], sym_size = 0,
                                sym_off = 0, sym_pc = 0, sym_allocated = False,
                                sym_exported = False\<rparr>]\<rparr>;
                    st2 = upd_sect r (\<lambda>x. x\<lparr>sec_syms := sec_syms x @ [p]\<rparr>) st1;
                    st3 = upd_sym p (\<lambda>y. y\<lparr>sym_sect := Some r, sym_name := name,
                                              sym_allocated := True\<rparr>) st2
                in Return p (st3\<lparr>syms := (syms st3)(name \<mapsto> p),
                                  osyms := osyms st3 @ [p]\<rparr>))))"

text \<open>
  \<open>fsym\<close> looks up a variable from the global symbol table; a name that is not there is
  added to the undefined symbol table for use by the linker. The result is \<open>nil\<close>
  (\<open>None\<close>) or the symbol.
\<close>

definition fsym :: "int \<Rightarrow> string \<Rightarrow> as \<Rightarrow> ref option result" where
  "fsym typ name st =
     (if (typ \<noteq> aPTR \<and> typ \<noteq> aVAR) \<or> name = [] then Return None st
      else
        (case syms st name of
           Some s \<Rightarrow> Return (Some s) st
         | None \<Rightarrow>
             (let s = length (sym_store st);
                  st1 = st\<lparr>sym_store := sym_store st @
                            [\<lparr>sym_sect = None, sym_typ = sUND, sym_name = name, sym_size = 0,
                              sym_off = 0, sym_pc = 0, sym_allocated = False,
                              sym_exported = True\<rparr>],
                          usyms := usyms st @ [s]\<rparr>
              in Return (Some s) (st1\<lparr>syms := (syms st1)(name \<mapsto> s),
                                       osyms := osyms st1 @ [s]\<rparr>))))"

text \<open>\<open>addglobal\<close> marks a global variable as exported.\<close>

definition addglobal :: "string \<Rightarrow> as \<Rightarrow> unit result" where
  "addglobal name st =
     (case gsym name (sect st) st of
        Panic e st1 \<Rightarrow> Panic e st1
      | Return p st1 \<Rightarrow> Return () (upd_sym p (\<lambda>y. y\<lparr>sym_exported := True\<rparr>) st1))"

text \<open>\<open>addbss\<close> adds a bss variable.\<close>

definition addbss :: "string \<Rightarrow> int64 \<Rightarrow> bool \<Rightarrow> as \<Rightarrow> unit result" where
  "addbss name size' allocated st =
     (case gsym name (bss st) st of
        Panic e st1 \<Rightarrow> Panic e st1
      | Return p st1 \<Rightarrow>
          if sym_typ (sym_store st1 ! p) = sNONE then
            (let st2 = upd_sym p (\<lambda>y. y\<lparr>sym_typ := sBSS, sym_size := size',
                                        sym_allocated := allocated\<rparr>) st1
             in case (if allocated
                      then (case sym_sect (sym_store st2 ! p) of
                              None \<Rightarrow> Panic NilDereference st2
                            | Some r \<Rightarrow>
                                Return () (upd_sect r
                                  (\<lambda>x. x\<lparr>sec_blocksize := sec_blocksize x + size'\<rparr>) st2))
                      else Return () st2) of
                  Panic e st3 \<Rightarrow> Panic e st3
                | Return _ st3 \<Rightarrow>
                    (case bss st3 of
                       None \<Rightarrow> Panic NilDereference st3
                     | Some b \<Rightarrow>
                         Return () (upd_sect b (\<lambda>x. x\<lparr>sec_blocks := sec_blocks x @ [p]\<rparr>) st3)))
          else Panic (errorf st1 (AlreadyDeclared name)) st1)"

text \<open>\<open>addlabel\<close> adds a label.\<close>

definition addlabel :: "string \<Rightarrow> int64 \<Rightarrow> goint \<Rightarrow> as \<Rightarrow> unit result" where
  "addlabel name off pc st =
     (case gsym name (sect st) st of
        Panic e st1 \<Rightarrow> Panic e st1
      | Return p st1 \<Rightarrow>
          if sym_typ (sym_store st1 ! p) = sLABEL then
            (if sym_off (sym_store st1 ! p) \<noteq> off
             then Panic (errorf st1 (AlreadyDeclared name)) st1
             else Return () st1)
          else if sym_typ (sym_store st1 ! p) = sNONE then
            (let st2 = upd_sym p (\<lambda>y. y\<lparr>sym_typ := sLABEL, sym_off := off, sym_pc := pc\<rparr>) st1
             in case sect st2 of
                  None \<Rightarrow> Panic NilDereference st2
                | Some r \<Rightarrow>
                    Return () (upd_sect r (\<lambda>x. x\<lparr>sec_labels := sec_labels x @ [p]\<rparr>) st2))
          else Panic (errorf st1 (AlreadyDeclared name)) st1)"

subsection \<open>Relocations and sections\<close>

text \<open>\<open>addrel\<close> adds a relocation.\<close>

definition addrel :: "int \<Rightarrow> addr4 \<Rightarrow> as \<Rightarrow> unit result" where
  "addrel op' addr' st =
     (case sect st of
        None \<Rightarrow> Panic NilDereference st
      | Some r \<Rightarrow>
          (let i = length (inst_store st);
               st1 = upd_sect r (\<lambda>x. x\<lparr>sec_inst := sec_inst x @ [i]\<rparr>)
                       (st\<lparr>inst_store := inst_store st @
                             [\<lparr>i_op = op', i_addr = addr', i_code = []\<rparr>]\<rparr>);
               s = sect_store st1 ! r;
               l = length (reloc_store st1);
               st2 = st1\<lparr>reloc_store := reloc_store st1 @
                          [\<lparr>r_section = Some r, r_inst = Some i, r_off = sec_size s,
                            r_pc = sec_pc s, r_isize = 0, r_reltyp = 0, r_relname = [],
                            r_rel = 0\<rparr>],
                        relocs := relocs st1 @ [l]\<rparr>
           in Return () (upd_sect r (\<lambda>x. x\<lparr>sec_relocs := sec_relocs x @ [l]\<rparr>) st2)))"

text \<open>The names of the first \<open>switch\<close> of \<open>addsect\<close>.\<close>

definition predefined :: "string list" where
  "predefined = [''.text'', ''.data'', ''.rela.text'', ''.rela.data'',
                 ''.bss'', ''.shstrtab'', ''.strtab'', ''.symtab'']"

text \<open>The second \<open>switch\<close> of \<open>addsect\<close>: \<open>None\<close> is its default case.\<close>

definition xtyp :: "string \<Rightarrow> int option" where
  "xtyp typ =
     (if typ = ''progbits'' then Some stPROGBITS
      else if typ = ''nobits'' then Some stNOBITS
      else if typ = ''note'' then Some stNOTE
      else None)"

text \<open>\<open>addsect\<close> adds a section, or makes the section of that name the current one.\<close>

definition addsect :: "string \<Rightarrow> string \<Rightarrow> string \<Rightarrow> as \<Rightarrow> unit result" where
  "addsect name flags typ st =
     (if name \<in> set predefined then Panic (errorf st (PredefinedSection name)) st
      else if name = [] then Panic (errorf st NoSectionName) st
      else
        (case xtyp typ of
           None \<Rightarrow> Panic (errorf st (UnknownSectionType typ)) st
         | Some x \<Rightarrow>
             (case find (\<lambda>s. sec_name (sect_store st ! s) = name) (sects st) of
                Some s \<Rightarrow> Return () (st\<lparr>sect := Some s\<rparr>)
              | None \<Rightarrow>
                  (let n = length (sect_store st)
                   in Return () (st\<lparr>sect_store := sect_store st @ [newsection name flags x],
                                     sects := sects st @ [n],
                                     sect := Some n\<rparr>)))))"

subsection \<open>The output sink and the buffered writer\<close>

text \<open>
  The parameter \<open>output\<close> of \<open>Assemble\<close> is an \<open>io.Writer\<close>. The model has the bytes the
  sink has taken and the room it has left (\<open>None\<close>: it takes whatever it is given). A
  write that fits is taken whole; of a write that does not fit, the sink takes what it
  has room for and returns that number and an error.
\<close>

record sink =
  sk_bytes :: "byte list"
  sk_room :: "nat option"

definition sink_write :: "sink \<Rightarrow> byte list \<Rightarrow> nat \<times> error option \<times> sink" where
  "sink_write k p =
     (case sk_room k of
        None \<Rightarrow> (length p, None, k\<lparr>sk_bytes := sk_bytes k @ p\<rparr>)
      | Some room \<Rightarrow>
          if length p \<le> room
          then (length p, None, k\<lparr>sk_bytes := sk_bytes k @ p, sk_room := Some (room - length p)\<rparr>)
          else (room, Some SinkError,
                k\<lparr>sk_bytes := sk_bytes k @ take room p, sk_room := Some 0\<rparr>))"

text \<open>
  \<open>bufio.Writer\<close> of Go's standard library, which \<open>Assemble\<close> puts around the sink:
  the error it has met (\<open>err\<close>), the bytes it holds (\<open>buf[0:n]\<close>) and the sink (\<open>wr\<close>).
  \<open>NewWriter\<close> gives it a buffer of \<open>defaultBufSize\<close> bytes.
\<close>

record writer =
  w_err :: "error option"
  w_buf :: "byte list"
  w_wr :: sink

definition defaultBufSize :: nat where
  "defaultBufSize = 4096"

definition NewWriter :: "sink \<Rightarrow> writer" where
  "NewWriter output = \<lparr>w_err = None, w_buf = [], w_wr = output\<rparr>"

definition Available :: "writer \<Rightarrow> nat" where
  "Available b = defaultBufSize - length (w_buf b)"

text \<open>
  \<open>Flush\<close> writes the buffered bytes to the sink. After an error the writer keeps the
  error and the bytes that the sink has not taken.
\<close>

definition Flush :: "writer \<Rightarrow> error option \<times> writer" where
  "Flush b =
     (case w_err b of
        Some e \<Rightarrow> (Some e, b)
      | None \<Rightarrow>
          if w_buf b = [] then (None, b)
          else
            (case sink_write (w_wr b) (w_buf b) of
               (n, err, k) \<Rightarrow>
                 (case (if n < length (w_buf b) \<and> err = None then Some ErrShortWrite else err) of
                    Some e \<Rightarrow> (Some e, b\<lparr>w_err := Some e, w_buf := drop n (w_buf b), w_wr := k\<rparr>)
                  | None \<Rightarrow> (None, b\<lparr>w_buf := [], w_wr := k\<rparr>))))"

text \<open>
  The loop of \<open>Write\<close>: as long as \<open>p\<close> does not fit the room left and no error was
  met, an empty buffer makes the writer pass \<open>p\<close> on to the sink directly, and a buffer
  that holds bytes is filled up and flushed. The result is the writer and the rest of
  \<open>p\<close>.
\<close>

function write_loop :: "writer \<Rightarrow> byte list \<Rightarrow> writer \<times> byte list" where
  "write_loop b p =
     (if Available b < length p \<and> w_err b = None then
        (if w_buf b = [] then
           (case sink_write (w_wr b) p of
              (n, err, k) \<Rightarrow> write_loop (b\<lparr>w_err := err, w_wr := k\<rparr>) (drop n p))
         else
           write_loop (snd (Flush (b\<lparr>w_buf := w_buf b @ take (Available b) p\<rparr>)))
             (drop (Available b) p))
      else (b, p))"
  by pat_completeness auto


termination write_loop
proof (relation "measure (\<lambda>(b, p). if w_err b \<noteq> None then 0
          else 2 * length p + (if w_buf b = [] then 0 else 1))", goal_cases)
  case 1
  show ?case by simp
next
  case (2 b p n y err k)
  then have sw: "sink_write (w_wr b) p = (n, err, k)" by simp
  show ?case
  proof (cases err)
    case None
    with sw have "n = length p"
      by (auto simp: sink_write_def split: option.splits if_splits)
    with None 2 show ?thesis by auto
  next
    case (Some a)
    with 2 show ?thesis by auto
  qed
next
  case (3 b p)
  let ?b = "b\<lparr>w_buf := w_buf b @ take (Available b) p\<rparr>"
  from 3 have "w_err (snd (Flush ?b)) \<noteq> None \<or> w_buf (snd (Flush ?b)) = []"
    by (auto simp: Flush_def split: option.splits prod.splits if_splits)
  with 3 show ?case by auto
qed

declare write_loop.simps [simp del]

text \<open>\<open>Write\<close> writes \<open>p\<close> into the buffer: the loop, then the copy of what is left.\<close>

definition Write :: "writer \<Rightarrow> byte list \<Rightarrow> writer" where
  "Write b p =
     (case write_loop b p of
        (b1, p1) \<Rightarrow>
          if w_err b1 \<noteq> None then b1
          else b1\<lparr>w_buf := w_buf b1 @ take (Available b1) p1\<rparr>)"

subsection \<open>Assemble\<close>

text \<open>
  What a call of \<open>Assemble\<close> does: it returns \<open>nil\<close>, it returns an error, or the panic
  leaves it (the deferred function panics again on a \<open>runtime.Error\<close>).
\<close>

datatype ret = Nil | Err error | Repanic panic

definition recover :: "panic \<Rightarrow> ret" where
  "recover p = (case p of Error e \<Rightarrow> Err e | _ \<Rightarrow> Repanic p)"

text \<open>
  Modelled from the spec: the architecture encoder \<open>x86as\<close> and the object writer
  \<open>genelf\<close>, which are not part of the sources. The encoder works on the program through
  the methods above and returns or panics. The writer serializes the finished program
  into the buffered output: it is given by the calls of \<open>Write\<close> and \<open>Flush\<close> that it
  makes on the buffered writer, in their order, and by the panic that ends it, if one
  does. A panic carries an error of \<open>errf\<close> or a run-time error.
\<close>

datatype wop = WWrite "byte list" | WFlush

type_synonym encoder = "as \<Rightarrow> string \<Rightarrow> byte list \<Rightarrow> unit result"
type_synonym object_writer = "as \<Rightarrow> wop list \<times> panic option"

fun run_ops :: "writer \<Rightarrow> wop list \<Rightarrow> writer" where
  "run_ops b [] = b"
| "run_ops b (WWrite p # ops) = run_ops (Write b p) ops"
| "run_ops b (WFlush # ops) = run_ops (snd (Flush b)) ops"

text \<open>
  \<open>Assemble\<close> assembles an operation, with the encoder and the writer it calls as
  parameters. The result is what the call does and the sink \<open>output\<close> after it.
\<close>

definition Assemble ::
  "encoder \<Rightarrow> object_writer \<Rightarrow> string \<Rightarrow> string \<Rightarrow> string \<Rightarrow> sink \<Rightarrow> byte list \<Rightarrow>
   ret \<times> sink" where
  "Assemble x86as genelf arch' os' input output src =
     (let prog = newprog arch' os'
      in if arch' = ''amd64'' then
           (case x86as prog input src of
              Panic p _ \<Rightarrow> (recover p, output)
            | Return _ prog' \<Rightarrow>
                (let w = NewWriter output
                 in if os' = ''linux'' then
                      (case genelf prog' of
                         (ops, Some p) \<Rightarrow> (recover p, w_wr (run_ops w ops))
                       | (ops, None) \<Rightarrow>
                           (case Flush (run_ops w ops) of
                              (None, w') \<Rightarrow> (Nil, w_wr w')
                            | (Some e, w') \<Rightarrow> (Err e, w_wr w')))
                    else (Err (UnsupportedOS os'), w_wr w)))
         else (Err (UnsupportedArch arch'), output))"

text \<open>The bytes that a list of calls writes, and whether it has no \<open>Flush\<close>.\<close>

fun written :: "wop list \<Rightarrow> byte list" where
  "written [] = []"
| "written (WWrite p # ops) = p @ written ops"
| "written (WFlush # ops) = written ops"

fun only_writes :: "wop list \<Rightarrow> bool" where
  "only_writes [] = True"
| "only_writes (WWrite p # ops) = only_writes ops"
| "only_writes (WFlush # ops) = False"

subsection \<open>States for the concrete checks\<close>

text \<open>The state a result carries, whether the call returned or panicked.\<close>

definition state_of :: "'a result \<Rightarrow> as" where
  "state_of x = (case x of Return _ st \<Rightarrow> st | Panic _ st \<Rightarrow> st)"

text \<open>The empty program for amd64/linux, with \<open>as.sect\<close> at the text section.\<close>

definition start :: as where
  "start = (newprog ''amd64'' ''linux'')\<lparr>sect := Some 0\<rparr>"

text \<open>An empty sink that takes whatever it is given.\<close>

definition sink0 :: sink where
  "sink0 = \<lparr>sk_bytes = [], sk_room = None\<rparr>"

text \<open>Whether a call returned.\<close>

definition returned :: "'a result \<Rightarrow> bool" where
  "returned x = (case x of Return _ _ \<Rightarrow> True | Panic _ _ \<Rightarrow> False)"


subsection \<open>The words of the specification\<close>

text \<open>
  The padding of the specification, on the integers:
  \<open>(alignment - (position mod alignment)) mod alignment\<close>.
\<close>

definition padding :: "int \<Rightarrow> int \<Rightarrow> nat" where
  "padding alignment position = nat ((alignment - position mod alignment) mod alignment)"

text \<open>
  The bytes of one payload value, as the specification describes them: a byte as it is
  and a fixed-width integer in the byte order of the target, here written out byte by
  byte from the least significant one. The type switch of \<open>code\<close> has two more cases:
  \<open>nil\<close> gives no byte and an \<open>int\<close> gives its low byte.
\<close>

definition in_order :: "byteorder \<Rightarrow> byte list \<Rightarrow> byte list" where
  "in_order e least_first =
     (case e of LittleEndian \<Rightarrow> least_first | BigEndian \<Rightarrow> rev least_first)"

fun payload :: "byteorder \<Rightarrow> emitval \<Rightarrow> byte list" where
  "payload e VNil = []"
| "payload e (VByte b) = [b]"
| "payload e (VInt i) = [ucast i]"
| "payload e (VUint16 w) = in_order e [ucast w, ucast (drop_bit 8 w)]"
| "payload e (VUint32 w) =
     in_order e [ucast w, ucast (drop_bit 8 w), ucast (drop_bit 16 w), ucast (drop_bit 24 w)]"
| "payload e (VUint64 w) =
     in_order e [ucast w, ucast (drop_bit 8 w), ucast (drop_bit 16 w), ucast (drop_bit 24 w),
       ucast (drop_bit 32 w), ucast (drop_bit 40 w), ucast (drop_bit 48 w),
       ucast (drop_bit 56 w)]"
| "payload e (VOther T) = []"

text \<open>The value kinds that the type switch of \<open>code\<close> has a case for.\<close>

fun supported :: "emitval \<Rightarrow> bool" where
  "supported (VOther T) = False"
| "supported v = True"

section \<open>Properties\<close>

subsection \<open>Helper lemmas\<close>

lemma find_first:
  "find P xs = Some x \<Longrightarrow> x \<in> set xs \<and> P x"
  by (induction xs) (auto split: if_splits)

lemma find_append_new:
  "find P xs = None \<Longrightarrow> \<forall>x\<in>set xs. Q x = P x \<Longrightarrow> Q n \<Longrightarrow> find Q (xs @ [n]) = Some n"
  by (induction xs) (auto split: if_splits)

lemma addsect_again:
  assumes wf: "\<forall>s\<in>set (sects st). s < length (sect_store st)"
    and first: "addsect name flags typ st = Return () st1"
    and ty2: "typ2 \<in> {''progbits'', ''nobits'', ''note''}"
  shows "addsect name flags2 typ2 st1 = Return () st1"
proof -
  from ty2 obtain x2 where ty: "xtyp typ2 = Some x2"
    by (auto simp: xtyp_def)
  from first have n: "name \<notin> set predefined" "name \<noteq> []"
    by (auto simp: addsect_def split: if_splits)
  from first n obtain x where x: "xtyp typ = Some x"
    by (auto simp: addsect_def split: option.splits)
  show ?thesis
  proof (cases "find (\<lambda>s. sec_name (sect_store st ! s) = name) (sects st)")
    case (Some s)
    with first n x have "st1 = st\<lparr>sect := Some s\<rparr>"
      by (simp add: addsect_def)
    with Some n ty show ?thesis
      by (simp add: addsect_def)
  next
    case None
    with first n x have st1: "st1 = st\<lparr>sect_store := sect_store st @ [newsection name flags x],
        sects := sects st @ [length (sect_store st)], sect := Some (length (sect_store st))\<rparr>"
      by (simp add: addsect_def Let_def)
    have "find (\<lambda>s. sec_name ((sect_store st @ [newsection name flags x]) ! s) = name)
            (sects st @ [length (sect_store st)]) = Some (length (sect_store st))"
      using None wf by (intro find_append_new) (auto simp: nth_append newsection_def)
    with st1 n ty show ?thesis
      by (simp add: addsect_def)
  qed
qed

lemma sint_in_range:
  fixes k :: int
  assumes "- (2 ^ 63) \<le> k" "k < 2 ^ 63"
  shows "sint (word_of_int k :: 64 word) = k"
  using assms by (simp add: sint_sbintrunc' signed_take_bit_int_eq_self)

lemma unat_sint_nonneg:
  fixes w :: "64 word"
  assumes "0 \<le> sint w"
  shows "unat w = nat (sint w)"
proof -
  have "sint w < 2 ^ 64"
    using sint_lt [of w] by simp
  with assms have "take_bit 64 (sint w) = sint w"
    by (intro take_bit_int_eq_self) simp_all
  then have "uint w = sint w"
    using uint_sint [of w] by simp
  then show ?thesis
    by (simp add: unat_eq_nat_uint del: nat_uint_eq)
qed

text \<open>On a positive divisor and a dividend that is not negative, Go's \<open>%\<close> is \<open>mod\<close>.\<close>

lemma rem_nonneg:
  assumes a: "0 < sint a" and p: "0 \<le> sint p"
  shows "sint (rem p a) = sint p mod sint a"
proof -
  have "sint p smod sint a = sint p mod sint a"
    using a p by (simp add: signed_modulo_int_def abs_of_nonneg sgn_if)
  moreover have "0 \<le> sint p mod sint a" "sint p mod sint a < sint a"
    using a by simp_all
  moreover have "sint a < 2 ^ 63"
    using sint_lt [of a] by simp
  ultimately show ?thesis
    unfolding rem_def by (simp add: sint_in_range)
qed

text \<open>The subtraction of \<open>alignpc\<close> does not wrap when \<open>pc\<close> is not negative.\<close>

lemma alignpc_size:
  assumes a: "0 < sint a" and p: "0 \<le> sint p"
  shows "sint (rem (a - rem p a) a) = (sint a - sint p mod sint a) mod sint a"
proof -
  have la: "sint a < 2 ^ 63" using sint_lt [of a] by simp
  have m: "0 \<le> sint p mod sint a" "sint p mod sint a < sint a"
    using a by simp_all
  have "sint (a - rem p a) = signed_take_bit 63 (sint a - sint p mod sint a)"
    by (simp add: sint_word_diff rem_nonneg [OF a p])
  also have "\<dots> = sint a - sint p mod sint a"
    using a la m by (intro signed_take_bit_int_eq_self) simp_all
  finally have d: "sint (a - rem p a) = sint a - sint p mod sint a" .
  have "0 \<le> sint (a - rem p a)" using d m by simp
  then show ?thesis
    using rem_nonneg [OF a, of "a - rem p a"] d by simp
qed

lemma upt_small: "[0..<8] = [0, 1, 2, 3, 4, 5, 6, 7]" "[0..<4] = [0, 1, 2, 3]" "[0..<2] = [0, 1]"
  by (simp_all add: upt_rec)

lemma put_uint_payload:
  "put_uint e 2 w = payload e (VUint16 w)"
  "put_uint e 4 w32 = payload e (VUint32 w32)"
  "put_uint e 8 w64 = payload e (VUint64 w64)"
  by (simp_all add: put_uint_def le_bytes_def in_order_def upt_small split: byteorder.splits)

lemma code_loop_supported:
  "list_all supported vs \<Longrightarrow>
   code_loop st vs acc = Inr (acc @ concat (map (payload (endian st)) vs))"
proof (induction vs arbitrary: acc)
  case Nil
  then show ?case by simp
next
  case (Cons v vs)
  then show ?case
    by (cases v) (simp_all add: put_uint_payload)
qed

lemma code_loop_other:
  "list_all supported pre \<Longrightarrow>
   code_loop st (pre @ VOther T # post) acc = Inl (errorf st (UnknownEmitType T))"
proof (induction pre arbitrary: acc)
  case Nil
  then show ?case by simp
next
  case (Cons v vs)
  then show ?case
    by (cases v) simp_all
qed









text \<open>Writes that fit the buffer stay in the buffer.\<close>

lemma write_loop_fits:
  "length p \<le> Available b \<Longrightarrow> write_loop b p = (b, p)"
  by (simp add: write_loop.simps)

lemma Write_fits:
  "w_err b = None \<Longrightarrow> length p \<le> Available b \<Longrightarrow> Write b p = b\<lparr>w_buf := w_buf b @ p\<rparr>"
  by (simp add: Write_def write_loop_fits)

lemma run_ops_fits:
  "w_err b = None \<Longrightarrow> only_writes ops \<Longrightarrow>
   length (w_buf b) + length (written ops) \<le> defaultBufSize \<Longrightarrow>
   run_ops b ops = b\<lparr>w_buf := w_buf b @ written ops\<rparr>"
proof (induction b ops rule: run_ops.induct)
  case (1 b)
  then show ?case by simp
next
  case (2 b p ops)
  then have "Write b p = b\<lparr>w_buf := w_buf b @ p\<rparr>"
    by (intro Write_fits) (simp_all add: Available_def)
  with 2 show ?case by simp
next
  case (3 b ops)
  then show ?case by simp
qed

subsection \<open>gsym\<close>

text \<open>
  C7. \<open>gsym name s\<close> is idempotent by name. If the global map has a symbol for \<open>name\<close>,
  that reference is returned and the state (the global map, the declaration-order list
  \<open>osyms\<close>, the symbol lists of the sections, and everything else) is unchanged. If it
  has none, and \<open>s\<close> is a section, exactly one symbol is added to the symbol store: it is
  untyped (\<open>sNONE\<close>), owned by \<open>s\<close>, and its reference is appended to the symbol list of
  \<open>s\<close>, stored in the global map under \<open>name\<close> and appended to \<open>osyms\<close>; nothing else
  changes. A call that returned returns the same reference when repeated, for any
  section argument, and changes nothing.
\<close>

theorem gsym_idempotent_by_name:
  "(syms st name = Some p \<longrightarrow> gsym name s st = Return p st)
   \<and> (syms st name = None \<and> s = Some r \<and> r < length (sect_store st) \<longrightarrow>
        gsym name s st =
          Return (length (sym_store st))
            (st\<lparr>sym_store := sym_store st @
                   [\<lparr>sym_sect = Some r, sym_typ = sNONE, sym_name = name, sym_size = 0,
                     sym_off = 0, sym_pc = 0, sym_allocated = True, sym_exported = False\<rparr>],
                 sect_store := (sect_store st)[r := (sect_store st ! r)
                      \<lparr>sec_syms := sec_syms (sect_store st ! r) @ [length (sym_store st)]\<rparr>],
                 syms := (syms st)(name \<mapsto> length (sym_store st)),
                 osyms := osyms st @ [length (sym_store st)]\<rparr>))
   \<and> (gsym name s st = Return q st1 \<longrightarrow> gsym name s2 st1 = Return q st1)"
  by (auto simp: gsym_def Let_def upd_sym_def upd_sect_def sNONE_def split: option.splits)

theorem gsym_idempotent_by_name_witness:
  "syms start ''x'' = None \<and> (0::nat) < length (sect_store start)
   \<and> state_of (gsym ''x'' (Some 0) start) = state_of (gsym ''x'' (Some 1) (state_of (gsym ''x'' (Some 0) start)))
   \<and> gsym ''x'' (Some 1) (state_of (gsym ''x'' (Some 0) start))
       = Return 0 (state_of (gsym ''x'' (Some 0) start))
   \<and> osyms (state_of (gsym ''x'' (Some 0) start)) = [0]
   \<and> sec_syms (sect_store (state_of (gsym ''x'' (Some 0) start)) ! 0) = [0]
   \<and> syms (state_of (gsym ''x'' (Some 0) start)) ''x'' = Some 0"
  using gsym_idempotent_by_name [of start "''x''" 0 "Some 0" 0 0
      "state_of (gsym ''x'' (Some 0) start)" "Some 1"]
  by (simp add: start_def newprog_def state_of_def gsym_def upd_sym_def upd_sect_def
      newsection_def Let_def)

subsection \<open>fsym\<close>

text \<open>
  C9. \<open>fsym typ name\<close> returns \<open>nil\<close> and changes nothing when \<open>typ\<close> is neither \<open>aVAR\<close>
  nor \<open>aPTR\<close>, or \<open>name\<close> is empty. Otherwise, for a name of the global map it returns the
  symbol there and changes nothing; for a name that is not in the global map it adds
  exactly one symbol to the symbol store, of type \<open>sUND\<close>, exported, with no owning
  section, stores it in the global map, and appends it to the declaration-order list
  \<open>osyms\<close> and to the undefined-symbols list \<open>usyms\<close>; nothing else changes.
\<close>

theorem fsym_reference:
  "((typ \<noteq> aVAR \<and> typ \<noteq> aPTR) \<or> name = [] \<longrightarrow> fsym typ name st = Return None st)
   \<and> ((typ = aVAR \<or> typ = aPTR) \<and> name \<noteq> [] \<and> syms st name = Some s \<longrightarrow>
        fsym typ name st = Return (Some s) st)
   \<and> ((typ = aVAR \<or> typ = aPTR) \<and> name \<noteq> [] \<and> syms st name = None \<longrightarrow>
        fsym typ name st =
          Return (Some (length (sym_store st)))
            (st\<lparr>sym_store := sym_store st @
                   [\<lparr>sym_sect = None, sym_typ = sUND, sym_name = name, sym_size = 0,
                     sym_off = 0, sym_pc = 0, sym_allocated = False, sym_exported = True\<rparr>],
                 syms := (syms st)(name \<mapsto> length (sym_store st)),
                 osyms := osyms st @ [length (sym_store st)],
                 usyms := usyms st @ [length (sym_store st)]\<rparr>))"
  by (auto simp: fsym_def Let_def)

theorem fsym_reference_witness:
  "aREG \<noteq> aVAR \<and> aREG \<noteq> aPTR \<and> fsym aREG ''x'' start = Return None start
   \<and> fsym aVAR [] start = Return None start
   \<and> syms start ''x'' = None
   \<and> fsym aVAR ''x'' start =
       Return (Some 0)
         (start\<lparr>sym_store :=
                  [\<lparr>sym_sect = None, sym_typ = sUND, sym_name = ''x'', sym_size = 0,
                    sym_off = 0, sym_pc = 0, sym_allocated = False, sym_exported = True\<rparr>],
                syms := (syms start)(''x'' \<mapsto> 0), osyms := [0], usyms := [0]\<rparr>)
   \<and> fsym aPTR ''x'' (state_of (fsym aVAR ''x'' start))
       = Return (Some 0) (state_of (fsym aVAR ''x'' start))"
  using fsym_reference [of aREG "''x''" start 0] fsym_reference [of aVAR "[]" start 0]
    fsym_reference [of aVAR "''x''" start 0]
    fsym_reference [of aPTR "''x''" "state_of (fsym aVAR ''x'' start)" 0]
  by (simp add: start_def newprog_def state_of_def aREG_def aVAR_def aPTR_def fsym_def
      Let_def)

subsection \<open>addlabel\<close>

text \<open>
  C4. \<open>addlabel name off pc\<close>: when the symbol of \<open>name\<close> is typed as a label, the call
  returns without changing anything (no symbol is created) if the offset of the symbol is
  \<open>off\<close>, and panics with the error "already declared" if it is not. When the symbol is
  untyped (it is in the global map with type \<open>sNONE\<close>, or it is not there and \<open>gsym\<close>
  creates it in the current section), the call sets its type to \<open>sLABEL\<close>, its offset to
  \<open>off\<close> and its position to \<open>pc\<close>, and appends it to the label list of the current
  section.
\<close>

theorem addlabel_declare:
  "(syms st name = Some p \<and> sym_typ (sym_store st ! p) = sLABEL \<longrightarrow>
      (sym_off (sym_store st ! p) = off \<longrightarrow> addlabel name off pc st = Return () st)
      \<and> (sym_off (sym_store st ! p) \<noteq> off \<longrightarrow>
           addlabel name off pc st = Panic (errorf st (AlreadyDeclared name)) st))
   \<and> (syms st name = Some p \<and> sym_typ (sym_store st ! p) = sNONE
        \<and> sect st = Some r \<and> r < length (sect_store st) \<longrightarrow>
        addlabel name off pc st =
          Return ()
            (st\<lparr>sym_store := (sym_store st)[p := (sym_store st ! p)
                      \<lparr>sym_typ := sLABEL, sym_off := off, sym_pc := pc\<rparr>],
                 sect_store := (sect_store st)[r := (sect_store st ! r)
                      \<lparr>sec_labels := sec_labels (sect_store st ! r) @ [p]\<rparr>]\<rparr>))
   \<and> (syms st name = None \<and> sect st = Some r \<and> r < length (sect_store st) \<longrightarrow>
        addlabel name off pc st =
          Return ()
            (st\<lparr>sym_store := sym_store st @
                   [\<lparr>sym_sect = Some r, sym_typ = sLABEL, sym_name = name, sym_size = 0,
                     sym_off = off, sym_pc = pc, sym_allocated = True, sym_exported = False\<rparr>],
                 sect_store := (sect_store st)[r := (sect_store st ! r)
                      \<lparr>sec_syms := sec_syms (sect_store st ! r) @ [length (sym_store st)],
                       sec_labels := sec_labels (sect_store st ! r) @ [length (sym_store st)]\<rparr>],
                 syms := (syms st)(name \<mapsto> length (sym_store st)),
                 osyms := osyms st @ [length (sym_store st)]\<rparr>))"
  by (auto simp: addlabel_def gsym_def Let_def upd_sym_def upd_sect_def sNONE_def sLABEL_def)

theorem addlabel_declare_witness:
  "syms start ''L'' = None \<and> sect start = Some 0 \<and> (0::nat) < length (sect_store start)
   \<and> sym_typ (sym_store (state_of (addlabel ''L'' 16 3 start)) ! 0) = sLABEL
   \<and> sym_off (sym_store (state_of (addlabel ''L'' 16 3 start)) ! 0) = 16
   \<and> sym_pc (sym_store (state_of (addlabel ''L'' 16 3 start)) ! 0) = 3
   \<and> sec_labels (sect_store (state_of (addlabel ''L'' 16 3 start)) ! 0) = [0]
   \<and> addlabel ''L'' 16 3 (state_of (addlabel ''L'' 16 3 start))
       = Return () (state_of (addlabel ''L'' 16 3 start))
   \<and> addlabel ''L'' 20 3 (state_of (addlabel ''L'' 16 3 start))
       = Panic (errorf start (AlreadyDeclared ''L'')) (state_of (addlabel ''L'' 16 3 start))
   \<and> sym_typ (sym_store (state_of (gsym ''x'' (Some 1) start)) ! 0) = sNONE
   \<and> sec_labels (sect_store (state_of (addlabel ''x'' 8 1
          (state_of (gsym ''x'' (Some 1) start)))) ! 0) = [0]
   \<and> sym_sect (sym_store (state_of (addlabel ''x'' 8 1
          (state_of (gsym ''x'' (Some 1) start)))) ! 0) = Some 1"
  using addlabel_declare [of start "''L''" 0 16 3 0]
    addlabel_declare [of "state_of (addlabel ''L'' 16 3 start)" "''L''" 0 16 3 0]
    addlabel_declare [of "state_of (addlabel ''L'' 16 3 start)" "''L''" 0 20 3 0]
    addlabel_declare [of "state_of (gsym ''x'' (Some 1) start)" "''x''" 0 8 1 0]
  by (simp add: start_def newprog_def state_of_def addlabel_def gsym_def upd_sym_def
      upd_sect_def newsection_def Let_def errorf_def sNONE_def sLABEL_def)

subsection \<open>addrel\<close>

text \<open>
  C8. \<open>addrel op addr\<close> panics on a nil current section. Otherwise it appends exactly one
  instruction without payload to the current section (one new \<open>inst\<close>, whose reference is
  appended to the instruction list of the section) and creates exactly one relocation,
  which holds the current section, the instruction just appended, the byte size of the
  section as \<open>off\<close> and the position counter of the section as \<open>pc\<close>; the reference of this
  one relocation is appended to the relocation list of the program and to that of the
  section. The byte size of the section and everything else is unchanged.
\<close>

theorem addrel_records:
  "(sect st = None \<longrightarrow> addrel op' addr' st = Panic NilDereference st)
   \<and> (sect st = Some r \<and> r < length (sect_store st) \<longrightarrow>
        addrel op' addr' st =
          Return ()
            (st\<lparr>inst_store := inst_store st @ [\<lparr>i_op = op', i_addr = addr', i_code = []\<rparr>],
                 reloc_store := reloc_store st @
                   [\<lparr>r_section = Some r, r_inst = Some (length (inst_store st)),
                     r_off = sec_size (sect_store st ! r), r_pc = sec_pc (sect_store st ! r),
                     r_isize = 0, r_reltyp = lN, r_relname = [], r_rel = 0\<rparr>],
                 relocs := relocs st @ [length (reloc_store st)],
                 sect_store := (sect_store st)[r := (sect_store st ! r)
                      \<lparr>sec_inst := sec_inst (sect_store st ! r) @ [length (inst_store st)],
                       sec_relocs := sec_relocs (sect_store st ! r) @ [length (reloc_store st)]\<rparr>]\<rparr>))"
  by (auto simp: addrel_def Let_def upd_sect_def lN_def)

theorem addrel_records_witness:
  "sect (newprog ''amd64'' ''linux'') = None
   \<and> addrel 7 addr4_0 (newprog ''amd64'' ''linux'')
       = Panic NilDereference (newprog ''amd64'' ''linux'')
   \<and> sect (bytes 0 [1, 2, 3] start) = Some 0
   \<and> (0::nat) < length (sect_store (bytes 0 [1, 2, 3] start))
   \<and> inst_store (state_of (addrel 7 addr4_0 (bytes 0 [1, 2, 3] start)))
       = [\<lparr>i_op = opBYTES, i_addr = addr4_0, i_code = [1, 2, 3]\<rparr>,
          \<lparr>i_op = 7, i_addr = addr4_0, i_code = []\<rparr>]
   \<and> reloc_store (state_of (addrel 7 addr4_0 (bytes 0 [1, 2, 3] start)))
       = [\<lparr>r_section = Some 0, r_inst = Some 1, r_off = 3, r_pc = 0, r_isize = 0,
           r_reltyp = lN, r_relname = [], r_rel = 0\<rparr>]
   \<and> relocs (state_of (addrel 7 addr4_0 (bytes 0 [1, 2, 3] start))) = [0]
   \<and> sec_relocs (sect_store (state_of (addrel 7 addr4_0 (bytes 0 [1, 2, 3] start))) ! 0) = [0]
   \<and> sec_inst (sect_store (state_of (addrel 7 addr4_0 (bytes 0 [1, 2, 3] start))) ! 0) = [0, 1]
   \<and> sec_size (sect_store (state_of (addrel 7 addr4_0 (bytes 0 [1, 2, 3] start))) ! 0) = 3"
  using addrel_records [of "newprog ''amd64'' ''linux''" 7 addr4_0 0]
    addrel_records [of "bytes 0 [1, 2, 3] start" 7 addr4_0 0]
  by (simp add: start_def newprog_def state_of_def addrel_def bytes_def append_inst_def
      upd_sect_def newsection_def Let_def len64_def lN_def)

subsection \<open>addsect\<close>

text \<open>
  C6. \<open>addsect name flags typ\<close> panics, changing nothing, when \<open>name\<close> is one of the
  predefined names (\<open>.text\<close>, \<open>.data\<close>, \<open>.bss\<close>, \<open>.rela.text\<close>, \<open>.rela.data\<close>, \<open>.shstrtab\<close>,
  \<open>.strtab\<close>, \<open>.symtab\<close>), when \<open>name\<close> is empty, and when \<open>typ\<close> is not one of
  \<open>progbits\<close>, \<open>nobits\<close>, \<open>note\<close>. Otherwise, when a section of the list \<open>sects\<close> has this
  name, such a section becomes the current one and nothing else changes (the list does
  not grow); when none has, one new section is added to the store, its reference is
  appended to \<open>sects\<close>, and it becomes the current section. A call that returned changes
  nothing when repeated with the same name (and any flags and valid type): it comes back
  to the same section.
\<close>

theorem addsect_select:
  "(name \<in> set predefined \<longrightarrow>
      addsect name flags typ st = Panic (errorf st (PredefinedSection name)) st)
   \<and> (name = [] \<longrightarrow> addsect name flags typ st = Panic (errorf st NoSectionName) st)
   \<and> (name \<noteq> [] \<and> name \<notin> set predefined
        \<and> typ \<notin> {''progbits'', ''nobits'', ''note''} \<longrightarrow>
        addsect name flags typ st = Panic (errorf st (UnknownSectionType typ)) st)
   \<and> (name \<noteq> [] \<and> name \<notin> set predefined \<and> xtyp typ = Some x \<longrightarrow>
        typ \<in> {''progbits'', ''nobits'', ''note''}
        \<and> ((\<exists>s\<in>set (sects st). sec_name (sect_store st ! s) = name) \<longrightarrow>
           (\<exists>s\<in>set (sects st). sec_name (sect_store st ! s) = name
              \<and> addsect name flags typ st = Return () (st\<lparr>sect := Some s\<rparr>)))
        \<and> ((\<forall>s\<in>set (sects st). sec_name (sect_store st ! s) \<noteq> name) \<longrightarrow>
             addsect name flags typ st =
               Return () (st\<lparr>sect_store := sect_store st @ [newsection name flags x],
                              sects := sects st @ [length (sect_store st)],
                              sect := Some (length (sect_store st))\<rparr>)))
   \<and> ((\<forall>s\<in>set (sects st). s < length (sect_store st))
        \<and> addsect name flags typ st = Return () st1
        \<and> typ2 \<in> {''progbits'', ''nobits'', ''note''} \<longrightarrow>
        addsect name flags2 typ2 st1 = Return () st1)"
  apply (intro conjI impI)
  subgoal by (simp add: addsect_def)
  subgoal by (simp add: addsect_def predefined_def)
  subgoal by (auto simp: addsect_def xtyp_def)
  subgoal by (auto simp: xtyp_def split: if_splits)
  subgoal by (cases "find (\<lambda>s. sec_name (sect_store st ! s) = name) (sects st)")
        (auto simp: addsect_def find_None_iff dest: find_first)
  subgoal by (auto simp: addsect_def Let_def find_None_iff[THEN iffD2] split: option.splits)
  subgoal by (blast intro: addsect_again)
  done

theorem addsect_select_witness:
  "''.text'' \<in> set predefined
   \<and> addsect ''.text'' ''ax'' ''progbits'' start
       = Panic (errorf start (PredefinedSection ''.text'')) start
   \<and> addsect [] ''wa'' ''progbits'' start = Panic (errorf start NoSectionName) start
   \<and> ''extra'' \<notin> set predefined \<and> ''bits'' \<notin> {''progbits'', ''nobits'', ''note''}
   \<and> addsect ''extra'' ''wa'' ''bits'' start
       = Panic (errorf start (UnknownSectionType ''bits'')) start
   \<and> xtyp ''progbits'' = Some stPROGBITS
   \<and> addsect ''extra'' ''wa'' ''progbits'' start
       = Return () (start\<lparr>sect_store := sect_store start @ [newsection ''extra'' ''wa'' stPROGBITS],
                          sects := [3], sect := Some 3\<rparr>)
   \<and> addsect ''extra'' ''wa'' ''progbits'' (state_of (addsect ''extra'' ''wa'' ''progbits'' start))
       = Return () (state_of (addsect ''extra'' ''wa'' ''progbits'' start))
   \<and> sects (state_of (addsect ''extra'' ''wa'' ''progbits''
        (state_of (addsect ''extra'' ''wa'' ''progbits'' start)))) = [3]
   \<and> sect (state_of (addsect ''extra'' ''ax'' ''nobits''
        (state_of (addsect ''other'' ''a'' ''note''
          (state_of (addsect ''extra'' ''wa'' ''progbits'' start)))))) = Some 3"
  using addsect_select [of "''.text''" "''ax''" "''progbits''" start stPROGBITS]
    addsect_select [of "[]" "''wa''" "''progbits''" start stPROGBITS]
    addsect_select [of "''extra''" "''wa''" "''bits''" start stPROGBITS]
    addsect_select [of "''extra''" "''wa''" "''progbits''" start stPROGBITS
      "state_of (addsect ''extra'' ''wa'' ''progbits'' start)" "''progbits''" "''wa''"]
    addsect_select [of "''extra''" "''ax''" "''nobits''"
      "state_of (addsect ''other'' ''a'' ''note''
          (state_of (addsect ''extra'' ''wa'' ''progbits'' start)))" stNOBITS]
  by (simp add: start_def newprog_def state_of_def addsect_def predefined_def xtyp_def
      newsection_def Let_def errorf_def)

subsection \<open>alignpc\<close>

text \<open>
  C1, as the code has it. \<open>alignpc align value\<close> aligns the position counter \<open>pc\<close> of the
  current section, not its byte size. For an alignment of at least 1 and a \<open>pc\<close> that is
  not negative, let the padding be \<open>(align - (pc mod align)) mod align\<close>. When the
  padding is at most the allocation limit of \<open>make\<close>, the call appends one \<open>opBYTES\<close>
  instruction (through \<open>bytes\<close>) whose payload is that many bytes of the value \<open>value\<close>,
  and the byte size of the section grows by that number (in \<open>int64\<close>); \<open>pc\<close> and
  everything else is unchanged. When the padding is above the limit, the call panics in
  \<open>make\<close> and nothing is changed.
\<close>

theorem alignpc_aligns_pc:
  "sect st = Some r \<and> r < length (sect_store st) \<and> 0 < sint align
   \<and> 0 \<le> sint (sec_pc (sect_store st ! r)) \<longrightarrow>
   (int (padding (sint align) (sint (sec_pc (sect_store st ! r)))) \<le> maxAlloc \<longrightarrow>
      alignpc align v st =
        Return ()
          (st\<lparr>inst_store := inst_store st @
                 [\<lparr>i_op = opBYTES, i_addr = addr4_0,
                   i_code = replicate (padding (sint align) (sint (sec_pc (sect_store st ! r)))) v\<rparr>],
               sect_store := (sect_store st)[r := (sect_store st ! r)
                 \<lparr>sec_inst := sec_inst (sect_store st ! r) @ [length (inst_store st)],
                  sec_size := sec_size (sect_store st ! r)
                    + word_of_nat (padding (sint align) (sint (sec_pc (sect_store st ! r))))\<rparr>]\<rparr>))
   \<and> (maxAlloc < int (padding (sint align) (sint (sec_pc (sect_store st ! r)))) \<longrightarrow>
        alignpc align v st = Panic MakesliceLen st)"
proof (intro impI, elim conjE, intro conjI impI)
  assume s: "sect st = Some r" and r: "r < length (sect_store st)"
    and a: "0 < sint align" and p: "0 \<le> sint (sec_pc (sect_store st ! r))"
  let ?pc = "sec_pc (sect_store st ! r)"
  let ?size = "rem (align - rem ?pc align) align"
  have sz: "sint ?size = (sint align - sint ?pc mod sint align) mod sint align"
    by (rule alignpc_size [OF a p])
  have nn: "0 \<le> sint ?size"
    using a by (simp add: sz)
  have un: "unat ?size = padding (sint align) (sint ?pc)"
    using sz unfolding padding_def by (simp add: unat_sint_nonneg [OF nn])
  have si: "sint ?size = int (padding (sint align) (sint ?pc))"
    using nn sz unfolding padding_def by simp
  have a0: "align \<noteq> 0" using a by auto
  have ns: "\<not> ?size <s 0" using nn by (simp add: word_sless_alt)
  {
    assume "int (padding (sint align) (sint ?pc)) \<le> maxAlloc"
    then have "\<not> maxAlloc < sint ?size" using si by simp
    then show "alignpc align v st = Return () (st\<lparr>inst_store := inst_store st @
              [\<lparr>i_op = opBYTES, i_addr = addr4_0,
                i_code = replicate (padding (sint align) (sint ?pc)) v\<rparr>],
            sect_store := (sect_store st)[r := (sect_store st ! r)
              \<lparr>sec_inst := sec_inst (sect_store st ! r) @ [length (inst_store st)],
               sec_size := sec_size (sect_store st ! r)
                 + word_of_nat (padding (sint align) (sint ?pc))\<rparr>]\<rparr>)"
      using s a0 ns un
      by (simp add: alignpc_def Let_def bytes_def append_inst_def len64_def)
  }
  {
    assume "maxAlloc < int (padding (sint align) (sint ?pc))"
    then have "maxAlloc < sint ?size" using si by simp
    then show "alignpc align v st = Panic MakesliceLen st"
      using s a0 by (simp add: alignpc_def Let_def)
  }
qed

text \<open>
  With \<open>pc = 10\<close> (and a byte size of 10), \<open>alignpc 16 0\<close> appends 6 bytes of value 0 and
  leaves the byte size at 16. With \<open>pc = 1\<close>, an alignment of 2^62 asks for 2^62 - 1
  bytes and panics.
\<close>

theorem alignpc_aligns_pc_witness:
  "sect (upd_sect 0 (\<lambda>x. x\<lparr>sec_pc := 10\<rparr>) (bytes 0 (replicate 10 7) start)) = Some 0
   \<and> (0::nat) < length (sect_store (upd_sect 0 (\<lambda>x. x\<lparr>sec_pc := 10\<rparr>)
          (bytes 0 (replicate 10 7) start)))
   \<and> 0 < sint (16 :: goint)
   \<and> padding (sint (16 :: goint)) 10 = 6
   \<and> int (padding (sint (16 :: goint)) 10) \<le> maxAlloc
   \<and> map i_code (inst_store (state_of (alignpc 16 0
        (upd_sect 0 (\<lambda>x. x\<lparr>sec_pc := 10\<rparr>) (bytes 0 (replicate 10 7) start)))))
       = [replicate 10 7, [0, 0, 0, 0, 0, 0]]
   \<and> sec_size (sect_store (state_of (alignpc 16 0
        (upd_sect 0 (\<lambda>x. x\<lparr>sec_pc := 10\<rparr>) (bytes 0 (replicate 10 7) start)))) ! 0) = 16
   \<and> sec_pc (sect_store (state_of (alignpc 16 0
        (upd_sect 0 (\<lambda>x. x\<lparr>sec_pc := 10\<rparr>) (bytes 0 (replicate 10 7) start)))) ! 0) = 10
   \<and> maxAlloc < int (padding (sint (4611686018427387904 :: goint)) 1)
   \<and> alignpc 4611686018427387904 0 (upd_sect 0 (\<lambda>x. x\<lparr>sec_pc := 1\<rparr>) start)
       = Panic MakesliceLen (upd_sect 0 (\<lambda>x. x\<lparr>sec_pc := 1\<rparr>) start)"
proof -
  have small:
    "sect (upd_sect 0 (\<lambda>x. x\<lparr>sec_pc := 10\<rparr>) (bytes 0 (replicate 10 7) start)) = Some 0
     \<and> (0::nat) < length (sect_store (upd_sect 0 (\<lambda>x. x\<lparr>sec_pc := 10\<rparr>)
            (bytes 0 (replicate 10 7) start)))
     \<and> 0 < sint (16 :: goint)
     \<and> padding (sint (16 :: goint)) 10 = 6
     \<and> int (padding (sint (16 :: goint)) 10) \<le> maxAlloc
     \<and> map i_code (inst_store (state_of (alignpc 16 0
          (upd_sect 0 (\<lambda>x. x\<lparr>sec_pc := 10\<rparr>) (bytes 0 (replicate 10 7) start)))))
         = [replicate 10 7, [0, 0, 0, 0, 0, 0]]
     \<and> sec_size (sect_store (state_of (alignpc 16 0
          (upd_sect 0 (\<lambda>x. x\<lparr>sec_pc := 10\<rparr>) (bytes 0 (replicate 10 7) start)))) ! 0) = 16
     \<and> sec_pc (sect_store (state_of (alignpc 16 0
          (upd_sect 0 (\<lambda>x. x\<lparr>sec_pc := 10\<rparr>) (bytes 0 (replicate 10 7) start)))) ! 0) = 10"
    using alignpc_aligns_pc [of "upd_sect 0 (\<lambda>x. x\<lparr>sec_pc := 10\<rparr>)
        (bytes 0 (replicate 10 7) start)" 0 16 0]
    by (simp add: start_def newprog_def state_of_def bytes_def append_inst_def upd_sect_def
        newsection_def Let_def len64_def padding_def maxAlloc_def numeral_eq_Suc)
  have large:
    "maxAlloc < int (padding (sint (4611686018427387904 :: goint)) 1)
     \<and> alignpc 4611686018427387904 0 (upd_sect 0 (\<lambda>x. x\<lparr>sec_pc := 1\<rparr>) start)
         = Panic MakesliceLen (upd_sect 0 (\<lambda>x. x\<lparr>sec_pc := 1\<rparr>) start)"
    using alignpc_aligns_pc [of "upd_sect 0 (\<lambda>x. x\<lparr>sec_pc := 1\<rparr>) start" 0
        4611686018427387904 0]
    by (simp add: start_def newprog_def upd_sect_def newsection_def padding_def maxAlloc_def)
  from small large show ?thesis by blast
qed

text \<open>
  Why \<open>pc\<close> must not be negative: with \<open>pc = -(2^63 - 2)\<close> and \<open>align = 2^63 - 1\<close> the
  subtraction wraps to \<open>-3\<close>, and \<open>make\<close> panics on the negative length.
\<close>

lemma alignpc_wraps:
  "alignpc 9223372036854775807 0
     (upd_sect 0 (\<lambda>x. x\<lparr>sec_pc := - 9223372036854775806\<rparr>) start)
   = Panic MakesliceLen (upd_sect 0 (\<lambda>x. x\<lparr>sec_pc := - 9223372036854775806\<rparr>) start)"
  by (simp add: alignpc_def upd_sect_def start_def newprog_def newsection_def rem_def
      signed_modulo_int_def word_sless_alt Let_def)

text \<open>
  The claim as stated fails: with a byte size of 10 and \<open>pc = 0\<close> (ten bytes emitted
  into the empty text section), \<open>alignpc 16 0\<close> appends an instruction with no byte and
  the byte size stays 10.
\<close>

theorem alignpc_size_counterexample:
  "sec_size (sect_store (bytes 0 (replicate 10 0) start) ! 0) = 10
   \<and> sect (bytes 0 (replicate 10 0) start) = Some 0
   \<and> returned (alignpc 16 0 (bytes 0 (replicate 10 0) start))
   \<and> sec_size (sect_store (state_of (alignpc 16 0 (bytes 0 (replicate 10 0) start))) ! 0) = 10
   \<and> map i_code (inst_store (state_of (alignpc 16 0 (bytes 0 (replicate 10 0) start))))
       = [replicate 10 0, []]"
  by (simp add: start_def newprog_def state_of_def returned_def alignpc_def bytes_def
      append_inst_def newsection_def Let_def len64_def rem_def signed_modulo_int_def
      word_sless_alt maxAlloc_def)

subsection \<open>code and emit\<close>

text \<open>
  C3, as the code has it. The payload of \<open>emit op addr v\<close> is the concatenation of the
  bytes of the values \<open>v\<close>: a byte as it is, a \<open>uint16\<close>, \<open>uint32\<close> or \<open>uint64\<close> in the byte
  order of the target, an \<open>int\<close> as its low byte, and nothing for \<open>nil\<close>. A value of any
  other type makes \<open>code\<close>, and so \<open>emit\<close>, panic with the error "unknown emit type",
  with nothing appended. When \<open>code\<close> gives the payload \<open>c\<close>, \<open>emit\<close> appends exactly one
  instruction \<open>{op, addr, c}\<close> to the current section and the byte size of the section
  grows by the length of \<open>c\<close> (in \<open>int64\<close>).
\<close>

theorem emit_payload:
  "(list_all supported vs \<longrightarrow> code st vs = Inr (concat (map (payload (endian st)) vs)))
   \<and> (list_all supported pre \<longrightarrow>
        code st (pre @ VOther T # post) = Inl (errorf st (UnknownEmitType T))
        \<and> emit op' addr' (pre @ VOther T # post) st = Panic (errorf st (UnknownEmitType T)) st)
   \<and> (code st vs = Inr c \<and> sect st = Some r \<and> r < length (sect_store st) \<longrightarrow>
        emit op' addr' vs st =
          Return ()
            (st\<lparr>inst_store := inst_store st @ [\<lparr>i_op = op', i_addr = addr', i_code = c\<rparr>],
                 sect_store := (sect_store st)[r := (sect_store st ! r)
                   \<lparr>sec_inst := sec_inst (sect_store st ! r) @ [length (inst_store st)],
                    sec_size := sec_size (sect_store st ! r) + word_of_nat (length c)\<rparr>]\<rparr>))"
  by (simp add: code_def code_loop_supported code_loop_other emit_def append_inst_def
      len64_def Let_def)

theorem emit_payload_witness:
  "list_all supported [VByte 1, VInt 300, VNil, VUint16 258, VUint32 1, VUint64 2]
  \<and> code start [VByte 1, VInt 300, VNil, VUint16 258, VUint32 1, VUint64 2]
     = Inr [1, 44, 2, 1, 1, 0, 0, 0, 2, 0, 0, 0, 0, 0, 0, 0]
  \<and> code (start\<lparr>endian := BigEndian\<rparr>) [VUint16 258, VUint32 1]
     = Inr [1, 2, 0, 0, 0, 1]
  \<and> emit opBYTE addr4_0 [VByte 1, VOther ''string'', VUint16 258] start
     = Panic (errorf start (UnknownEmitType ''string'')) start
  \<and> sect start = Some 0 \<and> (0::nat) < length (sect_store start)
  \<and> map i_code (inst_store (state_of (emit opQUAD addr4_0 [VUint64 2] start)))
     = [[2, 0, 0, 0, 0, 0, 0, 0]]
  \<and> sec_size (sect_store (state_of (emit opQUAD addr4_0 [VUint64 2] start)) ! 0) = 8"
  using emit_payload [of "[VByte 1, VInt 300, VNil, VUint16 258, VUint32 1, VUint64 2]" start
      "[VByte 1]" "''string''" "[VUint16 258]" opBYTE addr4_0
      "[1, 44, 2, 1, 1, 0, 0, 0, 2, 0, 0, 0, 0, 0, 0, 0]" 0]
    emit_payload [of "[VUint16 258, VUint32 1]" "start\<lparr>endian := BigEndian\<rparr>"]
    emit_payload [of "[VUint64 2]" start "[]" "[]" "[]" opQUAD addr4_0
      "[2, 0, 0, 0, 0, 0, 0, 0]" 0]
  by (simp add: emit_def code_def start_def newprog_def len64_def append_inst_def Let_def
      state_of_def newsection_def put_uint_def le_bytes_def upt_small errorf_def in_order_def)

text \<open>
  The claim as stated fails: an \<open>int\<close> and \<open>nil\<close> are neither single bytes nor
  \<open>uint16\<close>/\<open>uint32\<close>/\<open>uint64\<close>, and \<open>emit\<close> does not panic on them: the \<open>int\<close> 300 is
  emitted as the byte 44 and \<open>nil\<close> as nothing.
\<close>

theorem emit_other_kinds_counterexample:
  "code start [VInt 300, VNil] = Inr [44]
   \<and> returned (emit opBYTE addr4_0 [VInt 300, VNil] start)
   \<and> map i_code (inst_store (state_of (emit opBYTE addr4_0 [VInt 300, VNil] start))) = [[44]]
   \<and> sec_size (sect_store (state_of (emit opBYTE addr4_0 [VInt 300, VNil] start)) ! 0) = 1"
  by (simp add: emit_def code_def start_def newprog_def len64_def append_inst_def Let_def
      state_of_def returned_def newsection_def)

subsection \<open>addbss\<close>

text \<open>
  What \<open>addbss name size allocated\<close> does. A symbol that has a type makes it panic with
  the error "already declared", with nothing changed; so does a second \<open>addbss\<close> of a
  name. A name that is not in the global map gets a new symbol owned by the bss section,
  of type \<open>sBSS\<close>, in the block list of bss, and the block size of bss grows by \<open>size\<close>
  when \<open>allocated\<close> holds.
\<close>

lemma addbss_declare:
  "(syms st name = Some p \<and> sym_typ (sym_store st ! p) \<noteq> sNONE \<longrightarrow>
      addbss name z al st = Panic (errorf st (AlreadyDeclared name)) st)
   \<and> (syms st name = None \<and> bss st = Some b \<and> b < length (sect_store st) \<longrightarrow>
        returned (addbss name z al st)
        \<and> sym_store (state_of (addbss name z al st)) = sym_store st @
             [\<lparr>sym_sect = Some b, sym_typ = sBSS, sym_name = name, sym_size = z,
               sym_off = 0, sym_pc = 0, sym_allocated = al, sym_exported = False\<rparr>]
        \<and> sec_blocks (sect_store (state_of (addbss name z al st)) ! b)
            = sec_blocks (sect_store st ! b) @ [length (sym_store st)]
        \<and> sec_blocksize (sect_store (state_of (addbss name z al st)) ! b)
            = sec_blocksize (sect_store st ! b) + (if al then z else 0)
        \<and> addbss name z2 al2 (state_of (addbss name z al st))
            = Panic (errorf st (AlreadyDeclared name)) (state_of (addbss name z al st)))"
  by (auto simp: addbss_def gsym_def Let_def upd_sym_def upd_sect_def sNONE_def sBSS_def
      state_of_def returned_def errorf_def)

text \<open>
  C5 fails on the code for a symbol that \<open>gsym\<close> does not create in bss: \<open>addbss\<close> adds
  \<open>size\<close> to the block size of the section that owns the symbol (\<open>p.sect.blocksize\<close>),
  and appends the symbol to the block list of bss. After \<open>addglobal "v"\<close> in the text
  section, the first \<open>addbss "v" 4 true\<close> returns and types the symbol as bss, with the
  symbol in the block list of bss; the block size of bss is still 0 and the block size of
  the text section is 4.
\<close>

theorem addbss_blocksize_of_owner:
  "sect start = Some 0 \<and> bss start = Some 2
   \<and> returned (addglobal ''v'' start)
   \<and> returned (addbss ''v'' 4 True (state_of (addglobal ''v'' start)))
   \<and> sym_typ (sym_store (state_of (addbss ''v'' 4 True
        (state_of (addglobal ''v'' start)))) ! 0) = sBSS
   \<and> sec_blocks (sect_store (state_of (addbss ''v'' 4 True
        (state_of (addglobal ''v'' start)))) ! 2) = [0]
   \<and> sec_blocksize (sect_store (state_of (addbss ''v'' 4 True
        (state_of (addglobal ''v'' start)))) ! 2) = 0
   \<and> sec_blocksize (sect_store (state_of (addbss ''v'' 4 True
        (state_of (addglobal ''v'' start)))) ! 0) = 4"
  by (simp add: start_def newprog_def state_of_def returned_def addglobal_def addbss_def
      gsym_def upd_sym_def upd_sect_def newsection_def Let_def sNONE_def sBSS_def)

subsection \<open>Provisional externs\<close>




subsection \<open>Assemble\<close>

text \<open>
  C2, as the code has it. For every architecture other than \<open>amd64\<close>, \<open>Assemble\<close>
  returns the one error "unsupported arch" and the sink is as it was. For \<open>amd64\<close>, a
  panic of the encoder is what comes out (its error is the one error returned, a
  run-time error panics again) and the sink is as it was. For \<open>amd64\<close> and every os other
  than \<open>linux\<close>, once the encoder has returned, \<open>Assemble\<close> returns the one error
  "unsupported os"; so for every os other than \<open>linux\<close> the call does not return \<open>nil\<close>
  and the sink is as it was. The sink changes only in a run for \<open>amd64\<close> and \<open>linux\<close>
  in which the encoder has returned. In such a run, when the writer only writes and
  writes no more than the 4096 bytes of the buffer, nothing reaches the sink while the
  writer runs: if the writer panics the sink is as it was, and if it returns the bytes
  are handed to the sink by the one \<open>Flush\<close> at the end, in one write, whose error (if
  the sink refuses) is the error that \<open>Assemble\<close> returns.
\<close>

theorem Assemble_unsupported:
  "(arch' \<noteq> ''amd64'' \<longrightarrow>
      Assemble x86as genelf arch' os' input output src = (Err (UnsupportedArch arch'), output))
   \<and> (arch' = ''amd64'' \<and> x86as (newprog arch' os') input src = Panic q prog' \<longrightarrow>
        Assemble x86as genelf arch' os' input output src = (recover q, output))
   \<and> (arch' = ''amd64'' \<and> os' \<noteq> ''linux''
        \<and> x86as (newprog arch' os') input src = Return () prog' \<longrightarrow>
        Assemble x86as genelf arch' os' input output src = (Err (UnsupportedOS os'), output))
   \<and> (os' \<noteq> ''linux'' \<longrightarrow>
        fst (Assemble x86as genelf arch' os' input output src) \<noteq> Nil
        \<and> snd (Assemble x86as genelf arch' os' input output src) = output)
   \<and> (snd (Assemble x86as genelf arch' os' input output src) \<noteq> output \<longrightarrow>
        arch' = ''amd64'' \<and> os' = ''linux''
        \<and> (\<exists>p. x86as (newprog arch' os') input src = Return () p))
   \<and> (arch' = ''amd64'' \<and> os' = ''linux''
        \<and> x86as (newprog arch' os') input src = Return () prog'
        \<and> genelf prog' = (ops, r) \<and> only_writes ops
        \<and> length (written ops) \<le> defaultBufSize \<longrightarrow>
        (r = Some q \<longrightarrow> Assemble x86as genelf arch' os' input output src = (recover q, output))
        \<and> (r = None \<and> written ops = [] \<longrightarrow>
             Assemble x86as genelf arch' os' input output src = (Nil, output))
        \<and> (r = None \<and> written ops \<noteq> [] \<longrightarrow>
             Assemble x86as genelf arch' os' input output src
               = (case sink_write output (written ops) of
                    (n, None, k) \<Rightarrow> (Nil, k)
                  | (n, Some e, k) \<Rightarrow> (Err e, k))))"
proof -
  have fits: "only_writes ops \<Longrightarrow> length (written ops) \<le> defaultBufSize \<Longrightarrow>
      run_ops (NewWriter output) ops = \<lparr>w_err = None, w_buf = written ops, w_wr = output\<rparr>"
    using run_ops_fits [of "NewWriter output" ops] by (simp add: NewWriter_def)
  have sw: "\<And>n k. sink_write output (written ops) = (n, None, k) \<Longrightarrow> n = length (written ops)"
    by (auto simp: sink_write_def split: option.splits if_splits)
  show ?thesis
    apply (intro conjI impI)
    subgoal by (simp add: Assemble_def)
    subgoal by (auto simp: Assemble_def)
    subgoal by (auto simp: Assemble_def NewWriter_def)
    subgoal by (auto simp: Assemble_def NewWriter_def recover_def Let_def
          split: result.splits panic.splits)
    subgoal by (auto simp: Assemble_def NewWriter_def recover_def Let_def
          split: result.splits panic.splits)
    subgoal by (auto simp: Assemble_def NewWriter_def Let_def split: if_splits result.splits)
    subgoal by (auto simp: Assemble_def NewWriter_def Let_def split: if_splits result.splits)
    subgoal by (auto simp: Assemble_def NewWriter_def Let_def split: if_splits result.splits)
    subgoal by (auto simp: Assemble_def fits)
    subgoal by (auto simp: Assemble_def fits Flush_def)
    subgoal using sw by (auto simp: Assemble_def fits Flush_def split: prod.splits option.splits)
    done
qed

theorem Assemble_unsupported_witness:
  "''arm'' \<noteq> ''amd64'' \<and> ''plan9'' \<noteq> ''linux''
   \<and> Assemble (\<lambda>p i s. Return () p) (\<lambda>p. ([WWrite [127, 69, 76, 70]], None))
         ''arm'' ''linux'' ''t.s'' sink0 []
       = (Err (UnsupportedArch ''arm''), sink0)
   \<and> Assemble (\<lambda>p i s. Return () p) (\<lambda>p. ([WWrite [127, 69, 76, 70]], None))
         ''amd64'' ''plan9'' ''t.s'' sink0 []
       = (Err (UnsupportedOS ''plan9''), sink0)
   \<and> Assemble (\<lambda>p i s. Panic NilDereference p) (\<lambda>p. ([WWrite [127, 69, 76, 70]], None))
         ''amd64'' ''plan9'' ''t.s'' sink0 []
       = (Repanic NilDereference, sink0)
   \<and> only_writes [WWrite [127, 69], WWrite [76, 70]]
   \<and> length (written [WWrite [127, 69], WWrite [76, 70]]) \<le> defaultBufSize
   \<and> Assemble (\<lambda>p i s. Return () p)
         (\<lambda>p. ([WWrite [127, 69], WWrite [76, 70]], Some (Error (Opaque ''elf''))))
         ''amd64'' ''linux'' ''t.s'' sink0 []
       = (Err (Opaque ''elf''), sink0)
   \<and> Assemble (\<lambda>p i s. Return () p) (\<lambda>p. ([WWrite [127, 69], WWrite [76, 70]], None))
         ''amd64'' ''linux'' ''t.s'' sink0 []
       = (Nil, \<lparr>sk_bytes = [127, 69, 76, 70], sk_room = None\<rparr>)
   \<and> Assemble (\<lambda>p i s. Return () p) (\<lambda>p. ([WWrite [127, 69], WWrite [76, 70]], None))
         ''amd64'' ''linux'' ''t.s'' \<lparr>sk_bytes = [], sk_room = Some 3\<rparr> []
       = (Err SinkError, \<lparr>sk_bytes = [127, 69, 76], sk_room = Some 0\<rparr>)"
  using Assemble_unsupported [of "''arm''" "\<lambda>p i s. Return () p"
      "\<lambda>p. ([WWrite [127, 69, 76, 70]], None)" "''linux''" "''t.s''" sink0 "[]"]
    Assemble_unsupported [of "''amd64''" "\<lambda>p i s. Return () p"
      "\<lambda>p. ([WWrite [127, 69, 76, 70]], None)" "''plan9''" "''t.s''" sink0 "[]" NilDereference
      "newprog ''amd64'' ''plan9''"]
    Assemble_unsupported [of "''amd64''" "\<lambda>p i s. Panic NilDereference p"
      "\<lambda>p. ([WWrite [127, 69, 76, 70]], None)" "''plan9''" "''t.s''" sink0 "[]" NilDereference
      "newprog ''amd64'' ''plan9''"]
    Assemble_unsupported [of "''amd64''" "\<lambda>p i s. Return () p"
      "\<lambda>p. ([WWrite [127, 69], WWrite [76, 70]], Some (Error (Opaque ''elf'')))"
      "''linux''" "''t.s''" sink0 "[]" "Error (Opaque ''elf'')" "newprog ''amd64'' ''linux''"
      "[WWrite [127, 69], WWrite [76, 70]]" "Some (Error (Opaque ''elf''))"]
    Assemble_unsupported [of "''amd64''" "\<lambda>p i s. Return () p"
      "\<lambda>p. ([WWrite [127, 69], WWrite [76, 70]], None)"
      "''linux''" "''t.s''" sink0 "[]" NilDereference "newprog ''amd64'' ''linux''"
      "[WWrite [127, 69], WWrite [76, 70]]" None]
    Assemble_unsupported [of "''amd64''" "\<lambda>p i s. Return () p"
      "\<lambda>p. ([WWrite [127, 69], WWrite [76, 70]], None)"
      "''linux''" "''t.s''" "\<lparr>sk_bytes = [], sk_room = Some 3\<rparr>" "[]" NilDereference
      "newprog ''amd64'' ''linux''" "[WWrite [127, 69], WWrite [76, 70]]" None]
  by (simp add: recover_def sink_write_def sink0_def defaultBufSize_def)

text \<open>
  The claim as stated fails on both counts. A writer that writes 5000 bytes and then
  panics with an error makes a failing run, and the 5000 bytes are in the sink: they do
  not fit the buffer, which is empty, so \<open>Write\<close> passes them on to the sink, before any
  \<open>Flush\<close>. And for the os \<open>plan9\<close>, an encoder that panics with an error makes
  \<open>Assemble\<close> return that error, not one about the os.
\<close>

theorem Assemble_failing_run_counterexample:
  "Assemble (\<lambda>p i s. Return () p)
      (\<lambda>p. ([WWrite (replicate 5000 0)], Some (Error (Opaque ''elf''))))
      ''amd64'' ''linux'' ''t.s'' sink0 []
     = (Err (Opaque ''elf''), \<lparr>sk_bytes = replicate 5000 0, sk_room = None\<rparr>)
   \<and> Assemble (\<lambda>p i s. Panic (Error (Opaque ''syntax'')) p) (\<lambda>p. ([], None))
      ''amd64'' ''plan9'' ''t.s'' sink0 []
     = (Err (Opaque ''syntax''), sink0)"
  by (simp add: Assemble_def NewWriter_def Write_def write_loop.simps Available_def
      defaultBufSize_def sink_write_def sink0_def recover_def)

end
